theory Spec2Isabelle
  imports Complex_Main "HOL-Library.Sublist"
begin

section \<open>Values of the Python program\<close>

text \<open>
  The program \<^verbatim>\<open>yad2_parser.py\<close> walks JSON documents decoded by \<^verbatim>\<open>json.loads\<close>.
  A Python \<^verbatim>\<open>str\<close> is a sequence of Unicode code points, so it is modelled as a list of
  natural numbers (one per code point), not as a list of bytes. A JSON object is an
  association list read with \<open>map_of\<close>: the first pair with a key is the entry of the
  dict for that key. Python integers are unbounded (\<open>int\<close>).
  A Python \<^verbatim>\<open>float\<close> is represented by the rational number it denotes, and the two float
  operations of the program (true division and \<^verbatim>\<open>round(x, 2)\<close>) are computed exactly on
  rationals: IEEE rounding of the intermediate results, infinities and NaN are outside
  the model.
\<close>

type_synonym pystr = "nat list"

definition ascii :: "string \<Rightarrow> pystr" where
  "ascii s = map of_char s"

datatype json =
    JNull
  | JBool bool
  | JInt int
  | JFloat rat
  | JStr pystr
  | JArr "json list"
  | JObj "(pystr \<times> json) list"

type_synonym dict = "(pystr \<times> json) list"

text \<open>The exceptions the program can meet; each is a subclass of \<^verbatim>\<open>Exception\<close>.\<close>

datatype pyerr =
    KeyError
  | TypeError
  | ValueError
  | AttributeError
  | OverflowError
  | UnboundLocalError

definition pybind :: "pyerr + 'a \<Rightarrow> ('a \<Rightarrow> pyerr + 'b) \<Rightarrow> pyerr + 'b" where
  "pybind m f = (case m of Inl e \<Rightarrow> Inl e | Inr x \<Rightarrow> f x)"

subsection \<open>Operators on dynamically typed values\<close>

text \<open>\<^verbatim>\<open>d.get(k, default)\<close> on a dict.\<close>

definition dict_get :: "dict \<Rightarrow> pystr \<Rightarrow> json \<Rightarrow> json" where
  "dict_get d k dflt = (case map_of d k of None \<Rightarrow> dflt | Some v \<Rightarrow> v)"

text \<open>\<^verbatim>\<open>v.get(k, default)\<close>: only a dict has the method.\<close>

definition py_get :: "json \<Rightarrow> pystr \<Rightarrow> json \<Rightarrow> pyerr + json" where
  "py_get v k dflt = (case v of JObj d \<Rightarrow> Inr (dict_get d k dflt) | _ \<Rightarrow> Inl AttributeError)"

text \<open>\<^verbatim>\<open>v[k]\<close> with a string key: a dict raises KeyError on a missing key, a list or a
  string wants an integer index, the other values are not subscriptable.\<close>

definition py_getitem :: "json \<Rightarrow> pystr \<Rightarrow> pyerr + json" where
  "py_getitem v k =
     (case v of
        JObj d \<Rightarrow> (case map_of d k of None \<Rightarrow> Inl KeyError | Some x \<Rightarrow> Inr x)
      | _ \<Rightarrow> Inl TypeError)"

text \<open>Substring test of \<^verbatim>\<open>k in s\<close> for two strings.\<close>

fun contains :: "pystr \<Rightarrow> pystr \<Rightarrow> bool" where
  "contains [] k = (k = [])"
| "contains (c # s) k = (prefix k (c # s) \<or> contains s k)"

text \<open>\<^verbatim>\<open>k in v\<close> with a string \<open>k\<close>: key membership in a dict, element membership in a list,
  substring test in a string, TypeError on a value that is not iterable.\<close>

definition py_in :: "pystr \<Rightarrow> json \<Rightarrow> pyerr + bool" where
  "py_in k v =
     (case v of
        JObj d \<Rightarrow> Inr (map_of d k \<noteq> None)
      | JArr xs \<Rightarrow> Inr (JStr k \<in> set xs)
      | JStr s \<Rightarrow> Inr (contains s k)
      | _ \<Rightarrow> Inl TypeError)"

text \<open>\<^verbatim>\<open>v == 0\<close>: true for the integer 0, the floats 0.0 and -0.0, and \<^verbatim>\<open>False\<close>.\<close>

fun py_eq_zero :: "json \<Rightarrow> bool" where
  "py_eq_zero (JInt i) = (i = 0)"
| "py_eq_zero (JFloat r) = (r = 0)"
| "py_eq_zero (JBool b) = (\<not> b)"
| "py_eq_zero _ = False"

text \<open>The numeric value of a number (\<^verbatim>\<open>bool\<close> is a subclass of \<^verbatim>\<open>int\<close>); the other
  values support neither \<^verbatim>\<open>> 0\<close> nor division.\<close>

fun py_number :: "json \<Rightarrow> rat option" where
  "py_number (JInt i) = Some (of_int i)"
| "py_number (JFloat r) = Some r"
| "py_number (JBool b) = Some (if b then 1 else 0)"
| "py_number _ = None"

text \<open>\<^verbatim>\<open>__index__\<close>: the values the \<^verbatim>\<open>datetime\<close> constructor accepts as an integer.\<close>

fun py_index :: "json \<Rightarrow> pyerr + int" where
  "py_index (JInt i) = Inr i"
| "py_index (JBool b) = Inr (if b then 1 else 0)"
| "py_index _ = Inl TypeError"

subsection \<open>Decimal text of integers\<close>

fun digits_of_nat :: "nat \<Rightarrow> pystr" where
  "digits_of_nat n = (if n < 10 then [48 + n] else digits_of_nat (n div 10) @ [48 + n mod 10])"

declare digits_of_nat.simps [simp del]

text \<open>\<^verbatim>\<open>str(i)\<close> of an integer.\<close>

definition str_int :: "int \<Rightarrow> pystr" where
  "str_int i = (if i < 0 then 45 # digits_of_nat (nat (- i)) else digits_of_nat (nat i))"

text \<open>The format specification \<^verbatim>\<open>{m:02d}\<close>: zero-padded to width two.\<close>

definition format_02d :: "int \<Rightarrow> pystr" where
  "format_02d m = (let s = str_int m in if length s < 2 then 48 # s else s)"

subsection \<open>Rounding and dates\<close>

text \<open>\<^verbatim>\<open>round(x, 2)\<close> rounds to the nearest multiple of 1/100, ties to the even one.\<close>

definition round_half_even :: "rat \<Rightarrow> int" where
  "round_half_even x =
     (let f = \<lfloor>x\<rfloor>; r = x - of_int f
      in if r < 1 / 2 then f else if 1 / 2 < r then f + 1 else if even f then f else f + 1)"

definition round2 :: "rat \<Rightarrow> rat" where
  "round2 x = of_int (round_half_even (x * 100)) / 100"

text \<open>The proleptic Gregorian ordinal of a date, as \<^verbatim>\<open>datetime\<close> computes it.\<close>

definition is_leap :: "int \<Rightarrow> bool" where
  "is_leap y = (y mod 4 = 0 \<and> (y mod 100 \<noteq> 0 \<or> y mod 400 = 0))"

definition days_before_year :: "int \<Rightarrow> int" where
  "days_before_year year = (let y = year - 1 in y * 365 + y div 4 - y div 100 + y div 400)"

definition days_before_month :: "int \<Rightarrow> int \<Rightarrow> int" where
  "days_before_month year month =
     [0, 31, 59, 90, 120, 151, 181, 212, 243, 273, 304, 334] ! nat (month - 1)
       + (if 2 < month \<and> is_leap year then 1 else 0)"

definition ymd2ord :: "int \<Rightarrow> int \<Rightarrow> int \<Rightarrow> int" where
  "ymd2ord year month day = days_before_year year + days_before_month year month + day"

text \<open>\<^verbatim>\<open>datetime(year, month, 1)\<close> as an ordinal: the year must be an integer that fits a C
  int and lies in 1..9999, the month in 1..12.\<close>

definition datetime_ordinal :: "json \<Rightarrow> int \<Rightarrow> pyerr + int" where
  "datetime_ordinal year month =
     pybind (py_index year) (\<lambda>y.
       if y < - (2 ^ 31) \<or> 2 ^ 31 \<le> y then Inl OverflowError
       else if y < 1 \<or> 9999 < y \<or> month < 1 \<or> 12 < month then Inl ValueError
       else Inr (ymd2ord y month 1))"

section \<open>The output row and the runtime\<close>

text \<open>One row of the CSV file: the 19 columns of \<^verbatim>\<open>headers\<close>, in that order (the column
  \<^verbatim>\<open>make\<close> is the field \<open>make_col\<close>: a record reserves the name \<open>make\<close>).\<close>

record row =
  adNumber :: json
  price :: json
  city :: json
  adType :: json
  model :: json
  subModel :: json
  productionDate :: pystr
  km :: json
  hand :: json
  createdAt :: pystr
  updatedAt :: pystr
  rebouncedAt :: pystr
  listingType :: pystr
  number_of_years :: rat
  km_per_year :: rat
  description :: json
  link :: pystr
  make_col :: json
  hp :: int

text \<open>
  What the program reads from its runtime and not from the repository:
  the clock (\<^verbatim>\<open>datetime.now()\<close>, as the ordinal of today's date and as the text
  \<^verbatim>\<open>%Y-%m-%d\<close>; read once per call in the model), the module-level \<^verbatim>\<open>today\<close> token,
  the Unicode character database behind the regular expression classes \<^verbatim>\<open>\d\<close> and
  \<^verbatim>\<open>\s\<close> and behind \<^verbatim>\<open>int()\<close>, the interpreter's limit on the digits of an integer
  string (0 for no limit), \<^verbatim>\<open>str()\<close> of floats, lists and dicts, and whether
  \<^verbatim>\<open>writer.writerow\<close> accepts a row (it raises, for instance, on a lone surrogate that
  UTF-8 cannot encode). Printing and the file system are reliable in the model.
\<close>

record runtime =
  now_ordinal :: int
  now_text :: pystr
  today :: pystr
  is_decimal :: "nat \<Rightarrow> bool"
  decimal_value :: "nat \<Rightarrow> nat"
  is_space :: "nat \<Rightarrow> bool"
  max_str_digits :: nat
  repr_other :: "json \<Rightarrow> pystr"
  writable :: "row \<Rightarrow> bool"

text \<open>\<^verbatim>\<open>str(v)\<close>, as an f-string formats a value.\<close>

definition py_str :: "runtime \<Rightarrow> json \<Rightarrow> pystr" where
  "py_str rt v =
     (case v of
        JStr s \<Rightarrow> s
      | JInt i \<Rightarrow> str_int i
      | JBool b \<Rightarrow> ascii (if b then ''True'' else ''False'')
      | JNull \<Rightarrow> ascii ''None''
      | _ \<Rightarrow> repr_other rt v)"

section \<open>The per-record step of \<^verbatim>\<open>process_vehicle_data\<close>\<close>

subsection \<open>Keys and literals\<close>

abbreviation "k_orderId \<equiv> ascii ''orderId''"
abbreviation "k_token \<equiv> ascii ''token''"
abbreviation "k_price \<equiv> ascii ''price''"
abbreviation "k_manufacturer \<equiv> ascii ''manufacturer''"
abbreviation "k_model \<equiv> ascii ''model''"
abbreviation "k_subModel \<equiv> ascii ''subModel''"
abbreviation "k_vehicleDates \<equiv> ascii ''vehicleDates''"
abbreviation "k_yearOfProduction \<equiv> ascii ''yearOfProduction''"
abbreviation "k_monthOfProduction \<equiv> ascii ''monthOfProduction''"
abbreviation "k_text \<equiv> ascii ''text''"
abbreviation "k_km \<equiv> ascii ''km''"
abbreviation "k_address \<equiv> ascii ''address''"
abbreviation "k_city \<equiv> ascii ''city''"
abbreviation "k_area \<equiv> ascii ''area''"
abbreviation "k_metaData \<equiv> ascii ''metaData''"
abbreviation "k_description \<equiv> ascii ''description''"
abbreviation "k_adType \<equiv> ascii ''adType''"
abbreviation "k_hand \<equiv> ascii ''hand''"
abbreviation "k_id \<equiv> ascii ''id''"

text \<open>The Hebrew month names of \<^verbatim>\<open>month_mapping\<close>, as code points, January first.\<close>

definition month_mapping :: "(pystr \<times> int) list" where
  "month_mapping =
     [([1497, 1504, 1493, 1488, 1512], 1),
      ([1508, 1489, 1512, 1493, 1488, 1512], 2),
      ([1502, 1512, 1509], 3),
      ([1488, 1508, 1512, 1497, 1500], 4),
      ([1502, 1488, 1497], 5),
      ([1497, 1493, 1504, 1497], 6),
      ([1497, 1493, 1500, 1497], 7),
      ([1488, 1493, 1490, 1493, 1505, 1496], 8),
      ([1505, 1508, 1496, 1502, 1489, 1512], 9),
      ([1488, 1493, 1511, 1496, 1493, 1489, 1512], 10),
      ([1504, 1493, 1489, 1502, 1489, 1512], 11),
      ([1491, 1510, 1502, 1489, 1512], 12)]"

text \<open>The name of January, the default of both \<^verbatim>\<open>get\<close> calls on the month.\<close>

definition january :: pystr where
  "january = [1497, 1504, 1493, 1488, 1512]"

text \<open>The horsepower abbreviation of the regular expression: kaf, gershayim, samekh.\<close>

definition hp_marker :: pystr where
  "hp_marker = [1499, 1524, 1505]"

subsection \<open>\<^verbatim>\<open>get_month_number\<close> and \<^verbatim>\<open>calculate_years_since_production\<close>\<close>

text \<open>\<^verbatim>\<open>month_mapping.get(month_text, 1)\<close>: a list or a dict is unhashable and raises
  TypeError; any other value that is not a key of the table gives 1.\<close>

definition get_month_number :: "json \<Rightarrow> pyerr + int" where
  "get_month_number month_text =
     (case month_text of
        JArr _ \<Rightarrow> Inl TypeError
      | JObj _ \<Rightarrow> Inl TypeError
      | JStr s \<Rightarrow> Inr (case map_of month_mapping s of None \<Rightarrow> 1 | Some n \<Rightarrow> n)
      | _ \<Rightarrow> Inr 1)"

text \<open>\<^verbatim>\<open>(datetime.now() - datetime(year, month, 1)).days / 365.25\<close>. The production date is
  a midnight, so the whole days of the difference are the difference of the ordinals.\<close>

definition calculate_years_since_production :: "runtime \<Rightarrow> json \<Rightarrow> int \<Rightarrow> pyerr + rat" where
  "calculate_years_since_production rt production_year production_month =
     pybind (datetime_ordinal production_year production_month) (\<lambda>production_date.
       Inr (of_int (now_ordinal rt - production_date) / (36525 / 100)))"

subsection \<open>Mileage per year\<close>

text \<open>Lines 98 to 101. The test \<^verbatim>\<open>km > 0\<close> is only evaluated when the years are positive
  (\<^verbatim>\<open>and\<close> short-circuits); it raises TypeError on a value that is not a number. Dividing
  an integer by a float converts the integer to a float first, which raises
  OverflowError from \<open>2^1024 - 2^970\<close> on.\<close>

definition km_per_year_of :: "rat \<Rightarrow> json \<Rightarrow> pyerr + rat" where
  "km_per_year_of years_since_production km_v =
     (if 0 < years_since_production then
        (case py_number km_v of
           None \<Rightarrow> Inl TypeError
         | Some k \<Rightarrow>
             if 0 < k then
               (case km_v of
                  JInt i \<Rightarrow>
                    if 2 ^ 1024 - 2 ^ 970 \<le> i then Inl OverflowError
                    else Inr (round2 (k / years_since_production))
                | _ \<Rightarrow> Inr (round2 (k / years_since_production)))
             else Inr 0)
      else Inr 0)"

subsection \<open>Horsepower: the regular expression search\<close>

text \<open>
  \<^verbatim>\<open>re.search(r'(\d+)\s*' + marker, text)\<close>. At one start position the matcher takes the
  longest run of decimal digits, then the longest run of whitespace, then the marker,
  and backtracks over shorter runs when the rest does not match. \<open>match_tail\<close> is
  \<^verbatim>\<open>\s*\<close> followed by the marker; \<open>match_at\<close> gives the length of group 1 of the first
  alternative that succeeds; \<open>re_search\<close> tries the start positions from the left and
  gives group 1 of the first match.
\<close>

definition match_tail :: "runtime \<Rightarrow> pystr \<Rightarrow> bool" where
  "match_tail rt t =
     list_ex (\<lambda>j. prefix hp_marker (drop j t))
       (rev [0 ..< Suc (length (takeWhile (is_space rt) t))])"

definition match_at :: "runtime \<Rightarrow> pystr \<Rightarrow> nat option" where
  "match_at rt s =
     find (\<lambda>k. match_tail rt (drop k s))
       (rev [1 ..< Suc (length (takeWhile (is_decimal rt) s))])"

fun re_search :: "runtime \<Rightarrow> pystr \<Rightarrow> pystr option" where
  "re_search rt [] = None"
| "re_search rt (c # s) =
     (case match_at rt (c # s) of
        Some k \<Rightarrow> Some (take k (c # s))
      | None \<Rightarrow> re_search rt s)"

text \<open>What the pattern denotes: \<open>text\<close> has a match that starts after \<open>pre\<close>, with the
  digits \<open>ds\<close> as group 1, the whitespace \<open>ws\<close>, the marker, and \<open>post\<close> after the match.\<close>

definition hp_pattern :: "runtime \<Rightarrow> pystr \<Rightarrow> pystr \<Rightarrow> pystr \<Rightarrow> pystr \<Rightarrow> pystr \<Rightarrow> bool" where
  "hp_pattern rt text pre ds ws post \<longleftrightarrow>
     text = pre @ ds @ ws @ hp_marker @ post \<and> ds \<noteq> []
     \<and> list_all (is_decimal rt) ds \<and> list_all (is_space rt) ws"

text \<open>The value of a run of decimal digits, as \<^verbatim>\<open>int()\<close> reads it.\<close>

definition digits_value :: "runtime \<Rightarrow> pystr \<Rightarrow> int" where
  "digits_value rt ds = foldl (\<lambda>acc c. 10 * acc + int (decimal_value rt c)) 0 ds"

text \<open>\<^verbatim>\<open>int(s)\<close> of a run of digits: ValueError when the interpreter limits the length of
  integer strings and the run is longer.\<close>

definition py_int :: "runtime \<Rightarrow> pystr \<Rightarrow> pyerr + int" where
  "py_int rt ds =
     (if max_str_digits rt \<noteq> 0 \<and> max_str_digits rt < length ds then Inl ValueError
      else Inr (digits_value rt ds))"

text \<open>Lines 104 and 105; \<^verbatim>\<open>re.search\<close> raises TypeError on a value that is not a string.\<close>

definition hp_of :: "runtime \<Rightarrow> json \<Rightarrow> pyerr + int" where
  "hp_of rt sub_text =
     (case sub_text of
        JStr s \<Rightarrow> (case re_search rt s of None \<Rightarrow> Inr 0 | Some g \<Rightarrow> py_int rt g)
      | _ \<Rightarrow> Inl TypeError)"

subsection \<open>City and description\<close>

text \<open>Lines 108 to 113.\<close>

definition city_of :: "dict \<Rightarrow> pyerr + json" where
  "city_of item =
     (case map_of item k_address of
        None \<Rightarrow> Inr (JStr [])
      | Some address \<Rightarrow>
          pybind (py_in k_city address) (\<lambda>has_city.
            if has_city then
              pybind (py_getitem address k_city) (\<lambda>c. py_get c k_text (JStr []))
            else
              pybind (py_in k_area address) (\<lambda>has_area.
                if has_area then
                  pybind (py_getitem address k_area) (\<lambda>a. py_get a k_text (JStr []))
                else Inr (JStr []))))"

text \<open>Lines 116 to 118.\<close>

definition description_of :: "dict \<Rightarrow> pyerr + json" where
  "description_of item =
     (case map_of item k_metaData of
        None \<Rightarrow> Inr (JStr [])
      | Some meta \<Rightarrow>
          pybind (py_in k_description meta) (\<lambda>has_description.
            if has_description then py_getitem meta k_description else Inr (JStr [])))"

subsection \<open>The body of the loop\<close>

text \<open>Line 73.\<close>

definition ad_number_of :: "dict \<Rightarrow> json" where
  "ad_number_of item = dict_get item k_orderId (dict_get item k_token (JStr (ascii ''unknown'')))"

definition required_fields :: "pystr list" where
  "required_fields = [k_manufacturer, k_model, k_subModel, k_vehicleDates, k_token]"

text \<open>Lines 85 to 87: the year as the record gives it, and the number of the month.\<close>

definition production_of :: "dict \<Rightarrow> pyerr + json \<times> int" where
  "production_of item =
     pybind (py_getitem (JObj item) k_vehicleDates) (\<lambda>dates.
     pybind (py_getitem dates k_yearOfProduction) (\<lambda>year.
     pybind (py_get dates k_monthOfProduction (JObj [(k_text, JStr january)])) (\<lambda>month_data.
     pybind (py_get month_data k_text (JStr january)) (\<lambda>month_text.
     pybind (get_month_number month_text) (\<lambda>month.
       Inr (year, month))))))"

text \<open>Lines 85 to 143, for a record that passed both checks: the row, or the first
  exception raised while it is built.\<close>

definition build_row :: "runtime \<Rightarrow> pystr \<Rightarrow> dict \<Rightarrow> pyerr + row" where
  "build_row rt listing_type item =
     pybind (production_of item) (\<lambda>(year, month).
     pybind (calculate_years_since_production rt year month) (\<lambda>years_since_production.
     pybind (km_per_year_of years_since_production (dict_get item k_km (JInt 0))) (\<lambda>kmpy.
     pybind (py_getitem (JObj item) k_subModel) (\<lambda>sub.
     pybind (py_getitem sub k_text) (\<lambda>sub_text.
     pybind (hp_of rt sub_text) (\<lambda>hp_v.
     pybind (city_of item) (\<lambda>city_v.
     pybind (description_of item) (\<lambda>description_v.
     pybind (py_getitem (JObj item) k_price) (\<lambda>price_v.
     pybind (py_getitem (JObj item) k_model) (\<lambda>mdl.
     pybind (py_getitem mdl k_text) (\<lambda>model_text.
     pybind (py_getitem (JObj item) k_manufacturer) (\<lambda>manu.
     pybind (py_getitem manu k_text) (\<lambda>manu_text.
     pybind (py_getitem (dict_get item k_hand (JObj [(k_id, JInt 0)])) k_id) (\<lambda>hand_v.
     pybind (py_getitem (JObj item) k_token) (\<lambda>token_v.
       Inr \<lparr> adNumber = ad_number_of item,
             price = price_v,
             city = city_v,
             adType = dict_get item k_adType (JStr []),
             model = model_text,
             subModel = sub_text,
             productionDate = py_str rt year @ ascii ''-'' @ format_02d month @ ascii ''-01'',
             km = dict_get item k_km (JInt 0),
             hand = hand_v,
             createdAt = now_text rt,
             updatedAt = now_text rt,
             rebouncedAt = now_text rt,
             listingType = listing_type,
             number_of_years = round2 years_since_production,
             km_per_year = kmpy,
             description = description_v,
             link = ascii ''https://www.yad2.co.il/vehicles/item/'' @ py_str rt token_v,
             make_col = manu_text,
             hp = hp_v \<rparr>)))))))))))))))"

text \<open>What one pass through the \<^verbatim>\<open>try\<close> block does with a record: \<^verbatim>\<open>continue\<close>
  (\<open>Skip\<close>), an exception caught by one of the two handlers (\<open>Failure\<close>), or a row
  handed to \<^verbatim>\<open>writer.writerow\<close> (\<open>Converted\<close>).\<close>

datatype outcome = Skip | Failure pyerr | Converted row

text \<open>Lines 73 to 143. A value that is not a dict has no \<^verbatim>\<open>get\<close> method.\<close>

definition normalize_item :: "runtime \<Rightarrow> pystr \<Rightarrow> json \<Rightarrow> outcome" where
  "normalize_item rt listing_type item_v =
     (case item_v of
        JObj item \<Rightarrow>
          if map_of item k_price = None \<or> py_eq_zero (dict_get item k_price JNull) then Skip
          else if \<not> list_all (\<lambda>field. map_of item field \<noteq> None) required_fields then Skip
          else (case build_row rt listing_type item of
                  Inl e \<Rightarrow> Failure e
                | Inr r \<Rightarrow> Converted r)
      | _ \<Rightarrow> Failure AttributeError)"

section \<open>\<^verbatim>\<open>process_vehicle_data\<close>\<close>











section \<open>\<^verbatim>\<open>process_directory\<close>\<close>






text \<open>Line 166: the name ends in \<^verbatim>\<open>.html\<close> and contains the \<^verbatim>\<open>today\<close> token.\<close>

definition selected :: "runtime \<Rightarrow> pystr \<Rightarrow> bool" where
  "selected rt filename = (suffix (ascii ''.html'') filename \<and> contains filename (today rt))"



section \<open>Sample data\<close>

text \<open>A runtime whose clock shows 2 May 2024 and whose character classes are the ASCII
  digits and the ASCII whitespace; the samples below only meet those characters and
  Hebrew letters, on which the interpreter's classes agree with it.\<close>

definition sample_runtime :: runtime where
  "sample_runtime =
     \<lparr> now_ordinal = 739008, now_text = ascii ''2024-05-02'', today = ascii ''24_05_02'',
       is_decimal = (\<lambda>c. 48 \<le> c \<and> c \<le> 57), decimal_value = (\<lambda>c. c - 48),
       is_space = (\<lambda>c. c = 32 \<or> (9 \<le> c \<and> c \<le> 13)), max_str_digits = 4300,
       repr_other = (\<lambda>v. []), writable = (\<lambda>r. True) \<rparr>"

text \<open>A listing with every required field, with the given year of production and
  \<^verbatim>\<open>subModel\<close> text, and with further fields appended.\<close>

definition sample_listing :: "json \<Rightarrow> pystr \<Rightarrow> dict \<Rightarrow> dict" where
  "sample_listing year sub_text others =
     [(k_price, JInt 50000),
      (k_manufacturer, JObj [(k_text, JStr (ascii ''Toyota''))]),
      (k_model, JObj [(k_text, JStr (ascii ''Corolla''))]),
      (k_subModel, JObj [(k_text, JStr sub_text)]),
      (k_vehicleDates, JObj [(k_yearOfProduction, year)]),
      (k_token, JStr (ascii ''abc123''))] @ others"

text \<open>A listing whose address has a \<^verbatim>\<open>city\<close> entry without text and an \<^verbatim>\<open>area\<close> entry with
  the text North.\<close>

definition city_listing :: dict where
  "city_listing =
     sample_listing (JInt 2020) []
       [(k_address, JObj [(k_city, JObj []),
                          (k_area, JObj [(k_text, JStr (ascii ''North''))])])]"



text \<open>A \<^verbatim>\<open>subModel\<close> text that begins with the horsepower marker and has the figure 100
  before a second marker.\<close>

definition later_marker_text :: pystr where
  "later_marker_text = hp_marker @ [32, 49, 48, 48, 32] @ hp_marker"



section \<open>Basic facts\<close>

lemma ascii_eq_iff [simp]: "ascii s = ascii t \<longleftrightarrow> s = t"
  unfolding ascii_def by (simp add: inj_of_char)

lemma pybind_Inl [simp]: "pybind (Inl e) f = Inl e"
  by (simp add: pybind_def)

lemma pybind_Inr [simp]: "pybind (Inr x) f = f x"
  by (simp add: pybind_def)

lemma pybind_eq_Inr: "pybind m f = Inr y \<longleftrightarrow> (\<exists>x. m = Inr x \<and> f x = Inr y)"
  by (cases m) simp_all

lemma py_getitem_Inr:
  "py_getitem v k = Inr x \<longleftrightarrow> (\<exists>d. v = JObj d \<and> map_of d k = Some x)"
  by (cases v) (auto simp: py_getitem_def split: option.splits)

lemma py_get_Inr:
  "py_get v k dflt = Inr x \<longleftrightarrow> (\<exists>d. v = JObj d \<and> x = dict_get d k dflt)"
  by (cases v) (auto simp: py_get_def)

lemma build_rowE:
  assumes "build_row rt lt d = Inr r"
  obtains year month years kmpy sub sub_text hp_v city_v
    description_v price_v mdl model_text manu manu_text hand_v token_v
  where "production_of d = Inr (year, month)"
    and "calculate_years_since_production rt year month = Inr years"
    and "km_per_year_of years (dict_get d k_km (JInt 0)) = Inr kmpy"
    and "py_getitem (JObj d) k_subModel = Inr sub"
    and "py_getitem sub k_text = Inr sub_text"
    and "hp_of rt sub_text = Inr hp_v"
    and "city_of d = Inr city_v"
    and "description_of d = Inr description_v"
    and "py_getitem (JObj d) k_price = Inr price_v"
    and "py_getitem (JObj d) k_model = Inr mdl"
    and "py_getitem mdl k_text = Inr model_text"
    and "py_getitem (JObj d) k_manufacturer = Inr manu"
    and "py_getitem manu k_text = Inr manu_text"
    and "py_getitem (dict_get d k_hand (JObj [(k_id, JInt 0)])) k_id = Inr hand_v"
    and "py_getitem (JObj d) k_token = Inr token_v"
    and "r = \<lparr> adNumber = ad_number_of d, price = price_v, city = city_v,
             adType = dict_get d k_adType (JStr []), model = model_text, subModel = sub_text,
             productionDate = py_str rt year @ ascii ''-'' @ format_02d month @ ascii ''-01'',
             km = dict_get d k_km (JInt 0), hand = hand_v, createdAt = now_text rt,
             updatedAt = now_text rt, rebouncedAt = now_text rt, listingType = lt,
             number_of_years = round2 years, km_per_year = kmpy, description = description_v,
             link = ascii ''https://www.yad2.co.il/vehicles/item/'' @ py_str rt token_v,
             make_col = manu_text, hp = hp_v \<rparr>"
  using assms unfolding build_row_def
  apply (subst (asm) pybind_eq_Inr)
  apply (elim exE conjE)
  subgoal for ym
    apply (cases ym)
    apply hypsubst
    apply (simp only: prod.case pybind_eq_Inr)
    apply (elim exE conjE)
    apply (rule that)
    apply assumption+
    apply simp
    done
  done

lemma normalize_Converted:
  "normalize_item rt lt (JObj d) = Converted r \<longleftrightarrow>
     map_of d k_price \<noteq> None \<and> \<not> py_eq_zero (dict_get d k_price JNull)
     \<and> list_all (\<lambda>field. map_of d field \<noteq> None) required_fields
     \<and> build_row rt lt d = Inr r"
  by (auto simp: normalize_item_def split: sum.splits)

lemma normalize_Skip:
  "normalize_item rt lt (JObj d) = Skip \<longleftrightarrow>
     map_of d k_price = None \<or> py_eq_zero (dict_get d k_price JNull)
     \<or> \<not> list_all (\<lambda>field. map_of d field \<noteq> None) required_fields"
  by (auto simp: normalize_item_def split: sum.splits)


lemma required_all:
  "list_all (\<lambda>field. map_of d field \<noteq> None) required_fields \<longleftrightarrow>
     map_of d k_manufacturer \<noteq> None \<and> map_of d k_model \<noteq> None \<and> map_of d k_subModel \<noteq> None
     \<and> map_of d k_vehicleDates \<noteq> None \<and> map_of d k_token \<noteq> None"
  by (simp add: required_fields_def)

lemma price_zero_iff:
  "map_of d k_price = None \<or> py_eq_zero (dict_get d k_price JNull) \<longleftrightarrow>
     map_of d k_price = None \<or> (\<exists>p. map_of d k_price = Some p \<and> py_eq_zero p)"
  by (cases "map_of d k_price") (simp_all add: dict_get_def)

subsection \<open>Evaluating the model on concrete inputs\<close>

lemma floor_rat_numeral [simp]: "\<lfloor>(numeral a :: rat) / numeral b\<rfloor> = numeral a div numeral b"
  by (metis floor_divide_of_int_eq of_int_numeral)

lemma digits_of_nat_numeral [simp]:
  "digits_of_nat (numeral n) =
     (if (numeral n :: nat) < 10 then [48 + numeral n]
      else digits_of_nat (numeral n div 10) @ [48 + numeral n mod 10])"
  by (rule digits_of_nat.simps)

lemma digits_of_nat_0 [simp]: "digits_of_nat 0 = [48]"
  by (simp add: digits_of_nat.simps)

lemma digits_of_nat_1 [simp]: "digits_of_nat (Suc 0) = [49]"
  by (simp add: digits_of_nat.simps)

lemmas eval_defs = normalize_item_def build_row_def production_of_def required_fields_def
  sample_listing_def py_getitem_def py_get_def dict_get_def get_month_number_def
  month_mapping_def january_def calculate_years_since_production_def datetime_ordinal_def
  ymd2ord_def days_before_year_def days_before_month_def is_leap_def km_per_year_of_def
  round2_def round_half_even_def hp_of_def match_at_def match_tail_def hp_marker_def
  py_int_def digits_value_def city_of_def description_of_def py_in_def ad_number_of_def
  py_str_def str_int_def format_02d_def sample_runtime_def Let_def upt_rec

section \<open>Claims about the per-record step\<close>

text \<open>
  Claim C1. A listing record is skipped by the skip policy (the two \<^verbatim>\<open>continue\<close>
  statements) exactly when its \<^verbatim>\<open>price\<close> is absent or equals 0, or one of the five
  fields \<^verbatim>\<open>manufacturer\<close>, \<^verbatim>\<open>model\<close>, \<^verbatim>\<open>subModel\<close>, \<^verbatim>\<open>vehicleDates\<close>, \<^verbatim>\<open>token\<close> is
  absent. A record that is not skipped is converted to the row that \<open>build_row\<close>
  gives, unless building the row raises: then the exception is caught for that record.
\<close>

theorem skip_policy:
  "(normalize_item rt lt (JObj d) = Skip \<longleftrightarrow>
      map_of d k_price = None \<or> (\<exists>p. map_of d k_price = Some p \<and> py_eq_zero p)
      \<or> map_of d k_manufacturer = None \<or> map_of d k_model = None
      \<or> map_of d k_subModel = None \<or> map_of d k_vehicleDates = None
      \<or> map_of d k_token = None)
   \<and> (normalize_item rt lt (JObj d) \<noteq> Skip \<longrightarrow>
        normalize_item rt lt (JObj d)
          = (case build_row rt lt d of Inl e \<Rightarrow> Failure e | Inr r \<Rightarrow> Converted r))"
proof (intro conjI impI)
  show "normalize_item rt lt (JObj d) = Skip \<longleftrightarrow>
      map_of d k_price = None \<or> (\<exists>p. map_of d k_price = Some p \<and> py_eq_zero p)
      \<or> map_of d k_manufacturer = None \<or> map_of d k_model = None
      \<or> map_of d k_subModel = None \<or> map_of d k_vehicleDates = None
      \<or> map_of d k_token = None"
    unfolding normalize_Skip required_all using price_zero_iff [of d] by auto
next
  assume "normalize_item rt lt (JObj d) \<noteq> Skip"
  then show "normalize_item rt lt (JObj d)
      = (case build_row rt lt d of Inl e \<Rightarrow> Failure e | Inr r \<Rightarrow> Converted r)"
    by (simp add: normalize_item_def split: if_splits)
qed

theorem skip_policy_witness:
  "normalize_item sample_runtime (ascii ''commercial'') (JObj (sample_listing (JInt 2020) [] [])) \<noteq> Skip
   \<and> (\<exists>r. normalize_item sample_runtime (ascii ''commercial'')
            (JObj (sample_listing (JInt 2020) [] [])) = Converted r)
   \<and> normalize_item sample_runtime (ascii ''commercial'') (JObj [(k_price, JInt 0)]) = Skip"
proof -
  let ?lt = "ascii ''commercial''"
  let ?d = "sample_listing (JInt 2020) [] []"
  have a: "normalize_item sample_runtime ?lt (JObj ?d) \<noteq> Skip"
    using skip_policy [of sample_runtime ?lt ?d] by (simp add: sample_listing_def)
  have b: "\<exists>r. build_row sample_runtime ?lt ?d = Inr r"
    by (simp add: eval_defs)
  have c: "normalize_item sample_runtime ?lt (JObj [(k_price, JInt 0)]) = Skip"
    using skip_policy [of sample_runtime ?lt "[(k_price, JInt 0)]"] by simp
  from skip_policy [of sample_runtime ?lt ?d] a b c show ?thesis
    by auto
qed

text \<open>
  Claim C9. A record that passes the price check and the required-field check and
  whose \<^verbatim>\<open>hand\<close> is a mapping without the key \<^verbatim>\<open>id\<close> is never converted: the lookup
  raises and the record is dropped. In a converted row, \<^verbatim>\<open>hand\<close> is the default 0 when the
  record has no \<^verbatim>\<open>hand\<close> at all; when the record has one, it is a mapping and the row
  carries its \<^verbatim>\<open>id\<close>.
\<close>

theorem hand_without_id:
  assumes "map_of d k_price = Some p" and "\<not> py_eq_zero p"
    and "map_of d k_manufacturer \<noteq> None" and "map_of d k_model \<noteq> None"
    and "map_of d k_subModel \<noteq> None" and "map_of d k_vehicleDates \<noteq> None"
    and "map_of d k_token \<noteq> None"
  shows "(\<forall>h. map_of d k_hand = Some (JObj h) \<and> map_of h k_id = None
            \<longrightarrow> (\<exists>e. normalize_item rt lt (JObj d) = Failure e))
       \<and> (\<forall>r. normalize_item rt lt (JObj d) = Converted r \<longrightarrow>
            (map_of d k_hand = None \<longrightarrow> hand r = JInt 0)
            \<and> (\<forall>v. map_of d k_hand = Some v \<longrightarrow>
                  (\<exists>h. v = JObj h \<and> map_of h k_id = Some (hand r))))"
proof -
  have not_skip: "normalize_item rt lt (JObj d) \<noteq> Skip"
    using assms unfolding normalize_Skip required_all by (simp add: dict_get_def)
  have key: "py_getitem (dict_get d k_hand (JObj [(k_id, JInt 0)])) k_id = Inr (hand r)"
    if "normalize_item rt lt (JObj d) = Converted r" for r
  proof -
    from that have "build_row rt lt d = Inr r"
      by (simp add: normalize_Converted)
    then show ?thesis
      by (rule build_rowE) simp
  qed
  show ?thesis
  proof (intro conjI allI impI)
    fix h
    assume h: "map_of d k_hand = Some (JObj h) \<and> map_of h k_id = None"
    have "normalize_item rt lt (JObj d) \<noteq> Converted r" for r
    proof
      assume "normalize_item rt lt (JObj d) = Converted r"
      from key [OF this] h show False
        by (simp add: dict_get_def py_getitem_def)
    qed
    with not_skip show "\<exists>e. normalize_item rt lt (JObj d) = Failure e"
      by (cases "normalize_item rt lt (JObj d)") auto
  next
    fix r
    assume "normalize_item rt lt (JObj d) = Converted r" and "map_of d k_hand = None"
    from key [OF this(1)] this(2) show "hand r = JInt 0"
      by (simp add: dict_get_def py_getitem_def)
  next
    fix r v
    assume "normalize_item rt lt (JObj d) = Converted r" and "map_of d k_hand = Some v"
    from key [OF this(1)] this(2) show "\<exists>h. v = JObj h \<and> map_of h k_id = Some (hand r)"
      by (simp add: dict_get_def py_getitem_Inr)
  qed
qed

theorem hand_without_id_witness:
  "(\<exists>e. normalize_item sample_runtime (ascii ''commercial'')
          (JObj (sample_listing (JInt 2020) [] [(k_hand, JObj [])])) = Failure e)
   \<and> (\<exists>r. normalize_item sample_runtime (ascii ''commercial'')
          (JObj (sample_listing (JInt 2020) [] [])) = Converted r \<and> hand r = JInt 0)"
proof -
  let ?lt = "ascii ''commercial''"
  let ?d = "sample_listing (JInt 2020) [] [(k_hand, JObj [])]"
  let ?d' = "sample_listing (JInt 2020) [] []"
  have "\<exists>e. normalize_item sample_runtime ?lt (JObj ?d) = Failure e"
    using hand_without_id [of ?d "JInt 50000" sample_runtime ?lt]
    by (simp add: sample_listing_def)
  moreover have "\<exists>r. normalize_item sample_runtime ?lt (JObj ?d') = Converted r"
    by (simp add: eval_defs)
  then have "\<exists>r. normalize_item sample_runtime ?lt (JObj ?d') = Converted r \<and> hand r = JInt 0"
    using hand_without_id [of ?d' "JInt 50000" sample_runtime ?lt]
    by (auto simp add: sample_listing_def)
  ultimately show ?thesis
    by blast
qed

subsection \<open>The city\<close>

lemma py_in_Inr:
  "py_in k v = Inr b \<Longrightarrow> (\<forall>d. v = JObj d \<longrightarrow> b = (map_of d k \<noteq> None))"
  by (cases v) (auto simp: py_in_def)

lemma city_of_absent: "map_of d k_address = None \<Longrightarrow> city_of d = Inr (JStr [])"
  by (simp add: city_of_def)

lemma city_of_dict:
  assumes "map_of d k_address = Some (JObj a)"
  shows "city_of d =
     (case map_of a k_city of
        Some c \<Rightarrow> py_get c k_text (JStr [])
      | None \<Rightarrow> (case map_of a k_area of
                   Some ar \<Rightarrow> py_get ar k_text (JStr [])
                 | None \<Rightarrow> Inr (JStr [])))"
  using assms by (auto simp: city_of_def py_in_def py_getitem_def split: option.splits)

lemma city_of_other:
  assumes "map_of d k_address = Some v" and "\<And>a. v \<noteq> JObj a" and "city_of d = Inr c"
  shows "c = JStr []"
  using assms
  by (cases v) (auto simp: city_of_def py_in_def py_getitem_def pybind_def split: if_splits)

lemma Converted_city:
  "normalize_item rt lt (JObj d) = Converted r \<Longrightarrow> city_of d = Inr (city r)"
  unfolding normalize_Converted by (elim conjE, erule build_rowE) simp

text \<open>
  Claim C6 (amended). In a converted row, \<^verbatim>\<open>city\<close> is decided by the keys of \<^verbatim>\<open>address\<close>,
  not by the presence of the text: it is the empty string when the record has no
  \<^verbatim>\<open>address\<close>; when the address mapping has a \<^verbatim>\<open>city\<close> entry, that entry is a mapping and
  the city is its \<^verbatim>\<open>text\<close>, or the empty string when it has none (the \<^verbatim>\<open>area\<close> entry is
  not consulted); when it has no \<^verbatim>\<open>city\<close> entry but an \<^verbatim>\<open>area\<close> entry, the city is the
  \<^verbatim>\<open>text\<close> of that entry, or the empty string; when it has neither, or the address is
  not a mapping, the city is the empty string.
\<close>

theorem city_rule:
  assumes "normalize_item rt lt (JObj d) = Converted r"
  shows "(map_of d k_address = None \<longrightarrow> city r = JStr [])
     \<and> (\<forall>a c. map_of d k_address = Some (JObj a) \<and> map_of a k_city = Some c \<longrightarrow>
           (\<exists>cd. c = JObj cd \<and> city r = dict_get cd k_text (JStr [])))
     \<and> (\<forall>a c. map_of d k_address = Some (JObj a) \<and> map_of a k_city = None
             \<and> map_of a k_area = Some c \<longrightarrow>
           (\<exists>cd. c = JObj cd \<and> city r = dict_get cd k_text (JStr [])))
     \<and> (\<forall>a. map_of d k_address = Some (JObj a) \<and> map_of a k_city = None
             \<and> map_of a k_area = None \<longrightarrow> city r = JStr [])
     \<and> (\<forall>v. map_of d k_address = Some v \<and> (\<forall>a. v \<noteq> JObj a) \<longrightarrow> city r = JStr [])"
proof -
  note c = Converted_city [OF assms]
  show ?thesis
  proof (intro conjI allI impI)
    assume "map_of d k_address = None"
    with c show "city r = JStr []"
      by (simp add: city_of_absent)
  next
    fix a c'
    assume "map_of d k_address = Some (JObj a) \<and> map_of a k_city = Some c'"
    with c have "py_get c' k_text (JStr []) = Inr (city r)"
      by (simp add: city_of_dict)
    then show "\<exists>cd. c' = JObj cd \<and> city r = dict_get cd k_text (JStr [])"
      by (simp add: py_get_Inr)
  next
    fix a c'
    assume "map_of d k_address = Some (JObj a) \<and> map_of a k_city = None
       \<and> map_of a k_area = Some c'"
    with c have "py_get c' k_text (JStr []) = Inr (city r)"
      by (simp add: city_of_dict)
    then show "\<exists>cd. c' = JObj cd \<and> city r = dict_get cd k_text (JStr [])"
      by (simp add: py_get_Inr)
  next
    fix a
    assume "map_of d k_address = Some (JObj a) \<and> map_of a k_city = None
       \<and> map_of a k_area = None"
    with c show "city r = JStr []"
      by (simp add: city_of_dict)
  next
    fix v
    assume "map_of d k_address = Some v \<and> (\<forall>a. v \<noteq> JObj a)"
    with c show "city r = JStr []"
      using city_of_other [of d v "city r"] by blast
  qed
qed

text \<open>The claim as stated fails: the \<^verbatim>\<open>city\<close> entry has no text, the \<^verbatim>\<open>area\<close> entry has the
  text North, and the row's city is the empty string.\<close>

theorem city_fallback_counterexample:
  "(case normalize_item sample_runtime (ascii ''private'') (JObj city_listing) of
      Converted r \<Rightarrow> city r = JStr [] \<and> city r \<noteq> JStr (ascii ''North'')
    | _ \<Rightarrow> False)"
  by (simp add: eval_defs city_listing_def ascii_def)

theorem city_rule_witness:
  "\<exists>r. normalize_item sample_runtime (ascii ''private'') (JObj city_listing) = Converted r
       \<and> city r = JStr []"
proof -
  have "\<exists>r. normalize_item sample_runtime (ascii ''private'') (JObj city_listing) = Converted r"
    by (simp add: eval_defs city_listing_def ascii_def)
  then obtain r where r: "normalize_item sample_runtime (ascii ''private'') (JObj city_listing) = Converted r"
    by blast
  have a: "map_of city_listing k_address = Some (JObj [(k_city, JObj []),
                        (k_area, JObj [(k_text, JStr (ascii ''North''))])])"
    by (simp add: city_listing_def sample_listing_def)
  from city_rule [OF r] a have "city r = JStr []"
    by (simp add: dict_get_def)
  with r show ?thesis
    by blast
qed

subsection \<open>Years and mileage per year\<close>


lemma calculate_years_Inr:
  "calculate_years_since_production rt year month = Inr years \<longleftrightarrow>
     (\<exists>production_date. datetime_ordinal year month = Inr production_date
        \<and> years = of_int (now_ordinal rt - production_date) / (36525 / 100))"
  by (auto simp: calculate_years_since_production_def pybind_eq_Inr)

lemma Converted_fields:
  assumes "normalize_item rt lt (JObj d) = Converted r"
  shows "\<exists>year month years.
           production_of d = Inr (year, month)
         \<and> calculate_years_since_production rt year month = Inr years
         \<and> km_per_year_of years (dict_get d k_km (JInt 0)) = Inr (km_per_year r)
         \<and> number_of_years r = round2 years
         \<and> km r = dict_get d k_km (JInt 0)
         \<and> productionDate r = py_str rt year @ ascii ''-'' @ format_02d month @ ascii ''-01''
         \<and> hp_of rt (subModel r) = Inr (hp r)"
proof -
  from assms have b: "build_row rt lt d = Inr r"
    by (simp add: normalize_Converted)
  show ?thesis
    by (rule build_rowE [OF b]) auto
qed




subsection \<open>The production date\<close>

lemma digits_of_nat_ascii: "list_all (\<lambda>c. 48 \<le> c \<and> c \<le> 57) (digits_of_nat n)"
proof (induction n rule: digits_of_nat.induct)
  case (1 n)
  show ?case
  proof (cases "n < 10")
    case True
    then show ?thesis
      by (subst digits_of_nat.simps) simp
  next
    case False
    have "n mod 10 < 10"
      by simp
    then have "48 + n mod 10 \<le> 57"
      by linarith
    with False "1.IH" show ?thesis
      by (subst digits_of_nat.simps) simp
  qed
qed

lemma digits_of_nat_length4:
  assumes "1000 \<le> n" and "n \<le> 9999"
  shows "length (digits_of_nat n) = 4"
proof -
  from assms have a: "\<not> n < 10" "\<not> n div 10 < 10" "\<not> n div 10 div 10 < 10" "n div 10 div 10 div 10 < 10"
    by simp_all
  show ?thesis
    by (subst digits_of_nat.simps, simp only: a if_False,
        subst digits_of_nat.simps, simp only: a if_False,
        subst digits_of_nat.simps, simp only: a if_False,
        subst digits_of_nat.simps, simp only: a if_True) simp
qed

lemma get_month_number_range:
  assumes "get_month_number v = Inr m"
  shows "1 \<le> m \<and> m \<le> 12"
proof (cases v)
  case (JStr s)
  show ?thesis
  proof (cases "map_of month_mapping s")
    case None
    with JStr assms show ?thesis
      by (simp add: get_month_number_def)
  next
    case (Some n)
    then have "(s, n) \<in> set month_mapping"
      by (rule map_of_SomeD)
    then have "1 \<le> n \<and> n \<le> 12"
      by (auto simp: month_mapping_def)
    with JStr Some assms show ?thesis
      by (simp add: get_month_number_def)
  qed
qed (use assms in \<open>auto simp: get_month_number_def\<close>)

lemma format_02d_month:
  assumes "1 \<le> m" and "m \<le> 12"
  shows "length (format_02d m) = 2 \<and> list_all (\<lambda>c. 48 \<le> c \<and> c \<le> 57) (format_02d m)"
proof -
  from assms have "m \<in> {1, 2, 3, 4, 5, 6, 7, 8, 9, 10, 11, 12}"
    by simp presburger
  then show ?thesis
    by (auto simp: format_02d_def str_int_def Let_def)
qed

lemma production_of_month:
  assumes "production_of d = Inr (year, month)"
  shows "1 \<le> month \<and> month \<le> 12"
  using assms unfolding production_of_def pybind_eq_Inr
  by (auto dest: get_month_number_range)

lemma datetime_ordinal_year:
  assumes "datetime_ordinal year month = Inr ord"
  shows "year = JBool True \<or> (\<exists>y. year = JInt y \<and> 1 \<le> y \<and> y \<le> 9999)"
  using assms
  by (cases year) (auto simp: datetime_ordinal_def split: if_splits)

text \<open>
  What does hold of the production date of a converted row: it is the text of the
  year, a hyphen, the two digits of a month between 1 and 12, and \<^verbatim>\<open>-01\<close>; the year is an
  integer from 1 to 9999 (or \<^verbatim>\<open>True\<close>), and from the year 1000 on its text is four digits.
\<close>

lemma production_date_format:
  assumes "normalize_item rt lt (JObj d) = Converted r"
  shows "\<exists>year month. production_of d = Inr (year, month)
     \<and> productionDate r = py_str rt year @ ascii ''-'' @ format_02d month @ ascii ''-01''
     \<and> 1 \<le> month \<and> month \<le> 12
     \<and> length (format_02d month) = 2
     \<and> list_all (\<lambda>c. 48 \<le> c \<and> c \<le> 57) (format_02d month)
     \<and> (year = JBool True \<or> (\<exists>y. year = JInt y \<and> 1 \<le> y \<and> y \<le> 9999))
     \<and> (\<forall>y. year = JInt y \<and> 1000 \<le> y \<longrightarrow>
           length (py_str rt year) = 4
           \<and> list_all (\<lambda>c. 48 \<le> c \<and> c \<le> 57) (py_str rt year))"
proof -
  from Converted_fields [OF assms] obtain year month years
    where p: "production_of d = Inr (year, month)"
      and y: "calculate_years_since_production rt year month = Inr years"
      and t: "productionDate r = py_str rt year @ ascii ''-'' @ format_02d month @ ascii ''-01''"
    by blast
  note m = production_of_month [OF p]
  from y obtain ord where "datetime_ordinal year month = Inr ord"
    unfolding calculate_years_Inr by blast
  note yr = datetime_ordinal_year [OF this]
  have four: "length (py_str rt year) = 4 \<and> list_all (\<lambda>c. 48 \<le> c \<and> c \<le> 57) (py_str rt year)"
    if "year = JInt y \<and> 1000 \<le> y" for y
  proof -
    from that yr have "1000 \<le> nat y" and "nat y \<le> 9999"
      by auto
    from digits_of_nat_length4 [OF this] digits_of_nat_ascii [of "nat y"] that show ?thesis
      by (simp add: py_str_def str_int_def)
  qed
  from p t m format_02d_month [of month] yr four show ?thesis
    by blast
qed

text \<open>
  Claim C3. The year of the production date is formatted without padding, so a year
  below 1000 gives a date that is not of the form \<^verbatim>\<open>YYYY-MM-01\<close>: the listing of the year
  999 is converted with the production date \<^verbatim>\<open>999-01-01\<close>, nine characters long.
\<close>

theorem production_date_short_year:
  "(case normalize_item sample_runtime (ascii ''private'')
           (JObj (sample_listing (JInt 999) [] [])) of
      Converted r \<Rightarrow> productionDate r = ascii ''999-01-01'' \<and> length (productionDate r) = 9
    | _ \<Rightarrow> False)"
  by (simp add: eval_defs ascii_def)

subsection \<open>The horsepower search\<close>

lemma takeWhile_all_prefix:
  "list_all P ws \<Longrightarrow> length ws \<le> length (takeWhile P (ws @ t))"
  by (induction ws) simp_all

lemma take_takeWhile_all:
  "j \<le> length (takeWhile P t) \<Longrightarrow> list_all P (take j t)"
proof (induction t arbitrary: j)
  case Nil
  then show ?case by simp
next
  case (Cons c t)
  then show ?case
    by (cases j) (auto split: if_splits)
qed

lemma match_tail_unfold:
  "match_tail rt t \<longleftrightarrow>
     (\<exists>j. j \<le> length (takeWhile (is_space rt) t) \<and> prefix hp_marker (drop j t))"
  unfolding match_tail_def list_ex_iff
  by (auto simp del: upt_Suc simp: less_Suc_eq_le)

lemma match_tail_iff:
  "match_tail rt t \<longleftrightarrow> (\<exists>ws post. t = ws @ hp_marker @ post \<and> list_all (is_space rt) ws)"
proof
  assume "match_tail rt t"
  then obtain j where j: "j \<le> length (takeWhile (is_space rt) t)"
    and p: "prefix hp_marker (drop j t)"
    unfolding match_tail_unfold by blast
  from p obtain post where "drop j t = hp_marker @ post"
    by (auto simp: prefix_def)
  then have "t = take j t @ hp_marker @ post"
    by (metis append_take_drop_id)
  with take_takeWhile_all [OF j] show "\<exists>ws post. t = ws @ hp_marker @ post \<and> list_all (is_space rt) ws"
    by blast
next
  assume "\<exists>ws post. t = ws @ hp_marker @ post \<and> list_all (is_space rt) ws"
  then obtain ws post where t: "t = ws @ hp_marker @ post" and ws: "list_all (is_space rt) ws"
    by blast
  from takeWhile_all_prefix [OF ws] t have "length ws \<le> length (takeWhile (is_space rt) t)"
    by simp
  moreover from t have "prefix hp_marker (drop (length ws) t)"
    by simp
  ultimately show "match_tail rt t"
    unfolding match_tail_unfold by blast
qed

text \<open>A match at the start of \<open>s\<close> whose group 1 has \<open>k\<close> characters.\<close>

lemma match_here_iff:
  "(\<exists>ds ws post. hp_pattern rt s [] ds ws post \<and> length ds = k) \<longleftrightarrow>
     1 \<le> k \<and> k \<le> length (takeWhile (is_decimal rt) s) \<and> match_tail rt (drop k s)"
proof
  assume "\<exists>ds ws post. hp_pattern rt s [] ds ws post \<and> length ds = k"
  then obtain ds ws post where s: "s = ds @ ws @ hp_marker @ post" and ne: "ds \<noteq> []"
    and dd: "list_all (is_decimal rt) ds" and ww: "list_all (is_space rt) ws"
    and k: "length ds = k"
    by (auto simp: hp_pattern_def)
  from ne k have "1 \<le> k"
    by (cases ds) auto
  moreover from takeWhile_all_prefix [OF dd] s k have "k \<le> length (takeWhile (is_decimal rt) s)"
    by simp
  moreover from s k ww have "match_tail rt (drop k s)"
    unfolding match_tail_iff by auto
  ultimately show "1 \<le> k \<and> k \<le> length (takeWhile (is_decimal rt) s) \<and> match_tail rt (drop k s)"
    by blast
next
  assume a: "1 \<le> k \<and> k \<le> length (takeWhile (is_decimal rt) s) \<and> match_tail rt (drop k s)"
  then obtain ws post where d: "drop k s = ws @ hp_marker @ post" and ww: "list_all (is_space rt) ws"
    unfolding match_tail_iff by blast
  from a have dd: "list_all (is_decimal rt) (take k s)"
    by (simp add: take_takeWhile_all)
  from a have "k \<le> length s"
    using length_takeWhile_le [of "is_decimal rt" s] by linarith
  with a have len: "length (take k s) = k" and ne: "take k s \<noteq> []"
    by auto
  from d have "s = take k s @ ws @ hp_marker @ post"
    by (metis append_take_drop_id)
  with dd ww ne have "hp_pattern rt s [] (take k s) ws post"
    by (simp add: hp_pattern_def)
  with len show "\<exists>ds ws post. hp_pattern rt s [] ds ws post \<and> length ds = k"
    by blast
qed

lemma find_rev_upt_Some:
  "find P (rev [1 ..< Suc n]) = Some k \<longleftrightarrow>
     1 \<le> k \<and> k \<le> n \<and> P k \<and> (\<forall>k'. k < k' \<and> k' \<le> n \<longrightarrow> \<not> P k')"
proof (induction n)
  case 0
  then show ?case by simp
next
  case (Suc n)
  show ?case
  proof (cases "P (Suc n)")
    case True
    then show ?thesis
      by (auto simp: not_less_eq_eq le_Suc_eq)
  next
    case False
    then show ?thesis
      using Suc.IH by (auto simp: le_Suc_eq)
  qed
qed

lemma find_rev_upt_None:
  "find P (rev [1 ..< Suc n]) = None \<longleftrightarrow> (\<forall>k. 1 \<le> k \<and> k \<le> n \<longrightarrow> \<not> P k)"
  by (auto simp: find_None_iff)

lemma match_at_None:
  "match_at rt s = None \<longleftrightarrow> (\<forall>ds ws post. \<not> hp_pattern rt s [] ds ws post)"
proof -
  have "match_at rt s = None \<longleftrightarrow>
      (\<forall>k. \<not> (1 \<le> k \<and> k \<le> length (takeWhile (is_decimal rt) s) \<and> match_tail rt (drop k s)))"
    unfolding match_at_def find_rev_upt_None by blast
  also have "\<dots> \<longleftrightarrow> (\<forall>k. \<not> (\<exists>ds ws post. hp_pattern rt s [] ds ws post \<and> length ds = k))"
    unfolding match_here_iff ..
  also have "\<dots> \<longleftrightarrow> (\<forall>ds ws post. \<not> hp_pattern rt s [] ds ws post)"
    by blast
  finally show ?thesis .
qed

lemma match_at_Some:
  assumes "hp_pattern rt s [] ds ws post"
    and "\<And>ds' ws' post'. hp_pattern rt s [] ds' ws' post' \<Longrightarrow> length ds' \<le> length ds"
  shows "match_at rt s = Some (length ds)"
proof -
  let ?P = "\<lambda>k. match_tail rt (drop k s)"
  let ?n = "length (takeWhile (is_decimal rt) s)"
  from assms(1) have here: "1 \<le> length ds \<and> length ds \<le> ?n \<and> ?P (length ds)"
    using match_here_iff [of rt s "length ds"] by blast
  have "\<not> ?P k'" if "length ds < k' \<and> k' \<le> ?n" for k'
  proof
    assume "?P k'"
    with that have "1 \<le> k' \<and> k' \<le> ?n \<and> ?P k'"
      by simp
    then obtain ds' ws' post' where "hp_pattern rt s [] ds' ws' post'" and "length ds' = k'"
      using match_here_iff [of rt s k'] by blast
    with assms(2) that show False
      by fastforce
  qed
  with here show ?thesis
    unfolding match_at_def find_rev_upt_Some by blast
qed

lemma hp_pattern_Cons:
  "hp_pattern rt (c # s) (c # pre) ds ws post \<longleftrightarrow> hp_pattern rt s pre ds ws post"
  by (simp add: hp_pattern_def)

lemma hp_pattern_Nil_text: "\<not> hp_pattern rt [] pre ds ws post"
  by (simp add: hp_pattern_def)

lemma hp_pattern_pre_cases:
  assumes "hp_pattern rt (c # s) pre ds ws post"
  shows "pre = [] \<or> (\<exists>pre'. pre = c # pre' \<and> hp_pattern rt s pre' ds ws post)"
  using assms by (cases pre) (auto simp: hp_pattern_def)

lemma re_search_None:
  "(\<forall>pre ds ws post. \<not> hp_pattern rt s pre ds ws post) \<Longrightarrow> re_search rt s = None"
proof (induction s)
  case Nil
  then show ?case by simp
next
  case (Cons c s)
  from Cons.prems have "match_at rt (c # s) = None"
    unfolding match_at_None by blast
  moreover from Cons.prems have "\<forall>pre ds ws post. \<not> hp_pattern rt s pre ds ws post"
    using hp_pattern_Cons [of rt c s] by blast
  ultimately show ?case
    using Cons.IH by simp
qed

lemma re_search_Some:
  assumes "hp_pattern rt s pre ds ws post"
    and "\<And>pre' ds' ws' post'. hp_pattern rt s pre' ds' ws' post' \<Longrightarrow>
           length pre < length pre' \<or> (length pre = length pre' \<and> length ds' \<le> length ds)"
  shows "re_search rt s = Some ds"
  using assms
proof (induction pre arbitrary: s)
  case Nil
  from Nil.prems(1) obtain c s' where s: "s = c # s'"
    by (cases s) (auto simp: hp_pattern_def)
  have "match_at rt s = Some (length ds)"
  proof (rule match_at_Some [OF Nil.prems(1)])
    fix ds' ws' post'
    assume "hp_pattern rt s [] ds' ws' post'"
    from Nil.prems(2) [OF this] show "length ds' \<le> length ds"
      by simp
  qed
  moreover from Nil.prems(1) have "take (length ds) s = ds"
    by (simp add: hp_pattern_def)
  ultimately show ?case
    unfolding s by simp
next
  case (Cons c pre)
  from Cons.prems(1) obtain s' where s: "s = c # s'"
    by (cases s) (auto simp: hp_pattern_def)
  have none: "match_at rt s = None"
    unfolding match_at_None
  proof (intro allI notI)
    fix ds' ws' post'
    assume "hp_pattern rt s [] ds' ws' post'"
    from Cons.prems(2) [OF this] show False
      by simp
  qed
  from Cons.prems(1) have here: "hp_pattern rt s' pre ds ws post"
    unfolding s hp_pattern_Cons .
  have "re_search rt s' = Some ds"
  proof (rule Cons.IH [OF here])
    fix pre' ds' ws' post'
    assume "hp_pattern rt s' pre' ds' ws' post'"
    then have "hp_pattern rt s (c # pre') ds' ws' post'"
      unfolding s hp_pattern_Cons .
    from Cons.prems(2) [OF this]
    show "length pre < length pre' \<or> (length pre = length pre' \<and> length ds' \<le> length ds)"
      by simp
  qed
  with none show ?case
    unfolding s by simp
qed

lemma hp_of_Inr:
  assumes "hp_of rt v = Inr h"
  shows "\<exists>s. v = JStr s
     \<and> (re_search rt s = None \<longrightarrow> h = 0)
     \<and> (\<forall>g. re_search rt s = Some g \<longrightarrow> h = digits_value rt g)"
  using assms
  by (cases v) (auto simp: hp_of_def py_int_def split: option.splits if_splits)

lemma Converted_subModel:
  assumes "normalize_item rt lt (JObj d) = Converted r"
  shows "\<exists>sm. map_of d k_subModel = Some (JObj sm) \<and> map_of sm k_text = Some (subModel r)"
    and "hp_of rt (subModel r) = Inr (hp r)"
proof -
  from assms have b: "build_row rt lt d = Inr r"
    by (simp add: normalize_Converted)
  show "\<exists>sm. map_of d k_subModel = Some (JObj sm) \<and> map_of sm k_text = Some (subModel r)"
    by (rule build_rowE [OF b]) (auto simp: py_getitem_Inr)
  show "hp_of rt (subModel r) = Inr (hp r)"
    by (rule build_rowE [OF b]) auto
qed

text \<open>
  Claim C4 (amended). In a converted row, \<^verbatim>\<open>hp\<close> is read from the text of \<^verbatim>\<open>subModel\<close>: it
  is 0 when the text has no run of decimal digits followed by optional whitespace and
  the marker; otherwise it is the value of the digits of the leftmost such match (of
  the longest digit run there), that is, the integer before the first occurrence of the
  marker that has an integer before it, which need not be the first occurrence of the
  marker in the text.
\<close>

theorem hp_rule:
  assumes "normalize_item rt lt (JObj d) = Converted r"
  shows "\<exists>sm s. map_of d k_subModel = Some (JObj sm) \<and> map_of sm k_text = Some (JStr s)
     \<and> subModel r = JStr s
     \<and> ((\<forall>pre ds ws post. \<not> hp_pattern rt s pre ds ws post) \<longrightarrow> hp r = 0)
     \<and> (\<forall>pre ds ws post.
          hp_pattern rt s pre ds ws post
          \<and> (\<forall>pre' ds' ws' post'. hp_pattern rt s pre' ds' ws' post' \<longrightarrow>
                length pre < length pre'
                \<or> (length pre = length pre' \<and> length ds' \<le> length ds))
          \<longrightarrow> hp r = digits_value rt ds)"
proof -
  from Converted_subModel [OF assms] obtain sm
    where sm: "map_of d k_subModel = Some (JObj sm)" "map_of sm k_text = Some (subModel r)"
      and h: "hp_of rt (subModel r) = Inr (hp r)"
    by blast
  from hp_of_Inr [OF h] obtain s where s: "subModel r = JStr s"
    and none: "re_search rt s = None \<longrightarrow> hp r = 0"
    and some: "\<forall>g. re_search rt s = Some g \<longrightarrow> hp r = digits_value rt g"
    by (elim exE conjE)
  have a: "hp r = 0" if "\<forall>pre ds ws post. \<not> hp_pattern rt s pre ds ws post"
    using re_search_None [OF that] none by simp
  have b: "hp r = digits_value rt ds"
    if "hp_pattern rt s pre ds ws post
          \<and> (\<forall>pre' ds' ws' post'. hp_pattern rt s pre' ds' ws' post' \<longrightarrow>
                length pre < length pre'
                \<or> (length pre = length pre' \<and> length ds' \<le> length ds))"
    for pre ds ws post
  proof -
    from that have "re_search rt s = Some ds"
      by (intro re_search_Some [of rt s pre ds ws post]) blast+
    with some show ?thesis
      by simp
  qed
  from sm s a b show ?thesis
    by (intro exI [of _ sm] exI [of _ s] conjI allI impI) simp_all
qed

text \<open>The claim as stated fails: the text begins with the marker, so no digits precede
  the first occurrence of the marker, and the horsepower is 100, the integer before
  the second occurrence.\<close>

theorem hp_later_marker_counterexample:
  "(case normalize_item sample_runtime (ascii ''private'')
           (JObj (sample_listing (JInt 2020) later_marker_text [])) of
      Converted r \<Rightarrow>
        subModel r = JStr later_marker_text \<and> prefix hp_marker later_marker_text \<and> hp r = 100
    | _ \<Rightarrow> False)"
  by (simp add: eval_defs later_marker_text_def)

theorem hp_rule_witness:
  "(\<exists>r. normalize_item sample_runtime (ascii ''private'')
           (JObj (sample_listing (JInt 2020) ([53] @ hp_marker) [])) = Converted r \<and> hp r = 5)
   \<and> (\<exists>r. normalize_item sample_runtime (ascii ''private'')
           (JObj (sample_listing (JInt 2020) [] [])) = Converted r \<and> hp r = 0)"
proof -
  let ?lt = "ascii ''private''"
  let ?s = "[53] @ hp_marker"
  let ?d = "sample_listing (JInt 2020) ?s []"
  let ?d' = "sample_listing (JInt 2020) [] []"
  have "\<exists>r. normalize_item sample_runtime ?lt (JObj ?d) = Converted r"
    by (simp add: eval_defs)
  then obtain r where r: "normalize_item sample_runtime ?lt (JObj ?d) = Converted r"
    by blast
  from hp_rule [OF r] obtain sm s
    where sm: "map_of ?d k_subModel = Some (JObj sm)" "map_of sm k_text = Some (JStr s)"
      and rule: "\<forall>pre ds ws post.
          hp_pattern sample_runtime s pre ds ws post
          \<and> (\<forall>pre' ds' ws' post'. hp_pattern sample_runtime s pre' ds' ws' post' \<longrightarrow>
                length pre < length pre'
                \<or> (length pre = length pre' \<and> length ds' \<le> length ds))
          \<longrightarrow> hp r = digits_value sample_runtime ds"
    by blast
  from sm have s: "s = ?s"
    by (auto simp: sample_listing_def)
  have here: "hp_pattern sample_runtime ?s [] [53] [] []"
    by (simp add: hp_pattern_def sample_runtime_def)
  have best: "length ([] :: pystr) < length pre'
      \<or> (length ([] :: pystr) = length pre' \<and> length ds' \<le> length [53 :: nat])"
    if "hp_pattern sample_runtime ?s pre' ds' ws' post'" for pre' ds' ws' post'
  proof -
    from that have "length ?s = length (pre' @ ds' @ ws' @ hp_marker @ post')"
      unfolding hp_pattern_def by metis
    then show ?thesis
      by (simp add: hp_marker_def)
  qed
  from rule s here best have "hp r = digits_value sample_runtime [53]"
    by blast
  then have five: "hp r = 5"
    by (simp add: digits_value_def sample_runtime_def)
  have "\<exists>r. normalize_item sample_runtime ?lt (JObj ?d') = Converted r"
    by (simp add: eval_defs)
  then obtain r' where r': "normalize_item sample_runtime ?lt (JObj ?d') = Converted r'"
    by blast
  from hp_rule [OF r'] obtain sm' s'
    where sm': "map_of ?d' k_subModel = Some (JObj sm')" "map_of sm' k_text = Some (JStr s')"
      and rule': "(\<forall>pre ds ws post. \<not> hp_pattern sample_runtime s' pre ds ws post) \<longrightarrow> hp r' = 0"
    by blast
  from sm' have "s' = []"
    by (auto simp: sample_listing_def)
  with rule' have "hp r' = 0"
    by (simp add: hp_pattern_def)
  with r r' five show ?thesis
    by blast
qed

section \<open>Claims about a call of \<^verbatim>\<open>process_vehicle_data\<close>\<close>














section \<open>Claims about \<^verbatim>\<open>process_directory\<close>\<close>




















lemma selected_sample [simp]:
  "selected sample_runtime (ascii ''a_24_05_02.html'')"
  "selected sample_runtime (ascii ''b_24_05_02.html'')"
  by (simp_all add: selected_def sample_runtime_def ascii_def suffix_to_prefix)




end
